theory Spec2Isabelle
  imports Complex_Main
begin

section \<open>Values of the language that Shape works with\<close>

text \<open>
  The TypeScript type \<open>number\<close>. The setters only compare numbers (\<open>!==\<close>, \<open><\<close>),
  take \<open>Math.min\<close> and \<open>Math.max\<close> of them and test their truthiness; all of these are
  exact, so a finite number is modelled by the real it denotes. The two zeros are one value
  here: \<open>-0 === 0\<close> holds, both are falsy, and \<open>Math.max(0, -0)\<close> is a zero.
  \<open>NaN\<close> is kept apart because \<open>NaN !== NaN\<close> holds.
\<close>

datatype number = Num real | PosInfinity | NegInfinity | NaN

text \<open>\<open>a === b\<close> on numbers.\<close>

definition strict_eq :: "number \<Rightarrow> number \<Rightarrow> bool" where
  "strict_eq a b = (a \<noteq> NaN \<and> b \<noteq> NaN \<and> a = b)"

text \<open>\<open>a < b\<close> on numbers.\<close>

fun less_than :: "number \<Rightarrow> number \<Rightarrow> bool" where
  "less_than (Num a) (Num b) = (a < b)"
| "less_than (Num a) PosInfinity = True"
| "less_than (Num a) NegInfinity = False"
| "less_than PosInfinity _ = False"
| "less_than NegInfinity (Num b) = True"
| "less_than NegInfinity PosInfinity = True"
| "less_than NegInfinity NegInfinity = False"
| "less_than _ NaN = False"
| "less_than NaN _ = False"

definition Math_max :: "number \<Rightarrow> number \<Rightarrow> number" where
  "Math_max a b = (if a = NaN \<or> b = NaN then NaN else if less_than a b then b else a)"

definition Math_min :: "number \<Rightarrow> number \<Rightarrow> number" where
  "Math_min a b = (if a = NaN \<or> b = NaN then NaN else if less_than b a then b else a)"

text \<open>Truthiness, as \<open>if (v)\<close> tests it: zero and \<open>NaN\<close> are falsy, the empty string is
  falsy, \<open>undefined\<close> and \<open>null\<close> are falsy, every object (also an empty array) is truthy.\<close>

fun truthy_number :: "number \<Rightarrow> bool" where
  "truthy_number (Num r) = (r \<noteq> 0)"
| "truthy_number NaN = False"
| "truthy_number _ = True"

fun truthy_string :: "string option \<Rightarrow> bool" where
  "truthy_string None = False"
| "truthy_string (Some c) = (c \<noteq> [])"

datatype ShapeLineCap = Cap_null | Cap_round | Cap_square

datatype ShapeLineJoin = Join_null | Join_round | Join_bevel

text \<open>
  Arrays and drop shadows are objects: a variable holds a reference, and \<open>!==\<close> compares
  references. A reference is an address; the store gives the object at each address.
  No operation of Shape writes into an array or a shadow, so the store is only read.
\<close>

type_synonym ref = nat

text \<open>Modelled from the spec: the drop-shadow class is not part of the sources; it is
  "an opaque drop-shadow value object exposing color, offset.x, offset.y, blur".\<close>

record DropShadow =
  color :: string
  offset_x :: number
  offset_y :: number
  blur :: number

record store =
  arrays :: "ref \<Rightarrow> number list"
  shadows :: "ref \<Rightarrow> DropShadow"

section \<open>The Shape class\<close>

text \<open>
  The private fields \<open>_fill\<close>, \<open>_stroke\<close>, ... of a shape, under the names of their getters
  (each getter returns its field), and the flag \<open>dirty\<close> of the node base class, which is
  not part of the sources: by the specification it is "a \<open>dirty: bool\<close> field the subsystem
  may set to true".
\<close>

record Shape =
  fill :: "string option"
  stroke :: "string option"
  strokeWidth :: number
  lineDash :: "ref option"
  lineDashOffset :: number
  lineCap :: ShapeLineCap
  lineJoin :: ShapeLineJoin
  opacity :: number
  shadow :: "ref option"
  dirty :: bool

subsection \<open>Setters\<close>

definition set_fill :: "string option \<Rightarrow> Shape \<Rightarrow> Shape" where
  "set_fill v s = (if fill s \<noteq> v then s\<lparr>fill := v, dirty := True\<rparr> else s)"

definition set_stroke :: "string option \<Rightarrow> Shape \<Rightarrow> Shape" where
  "set_stroke v s = (if stroke s \<noteq> v then s\<lparr>stroke := v, dirty := True\<rparr> else s)"

definition set_strokeWidth :: "number \<Rightarrow> Shape \<Rightarrow> Shape" where
  "set_strokeWidth v s =
     (if \<not> strict_eq (strokeWidth s) v then s\<lparr>strokeWidth := v, dirty := True\<rparr> else s)"

text \<open>The loop of the \<open>lineDash\<close> setter: \<open>i\<close> runs from its start to \<open>n\<close>, and the first
  pair of elements that are not \<open>===\<close> ends it with \<open>identical = false\<close>. It is only entered
  when both arrays have length \<open>n\<close>, so every read is in range.\<close>

function identical_loop :: "number list \<Rightarrow> number list \<Rightarrow> nat \<Rightarrow> nat \<Rightarrow> bool" where
  "identical_loop oldValue v i n =
     (if i < n
      then (if \<not> strict_eq (oldValue ! i) (v ! i) then False
            else identical_loop oldValue v (i + 1) n)
      else True)"
  by pat_completeness auto
termination
  by (relation "measure (\<lambda>(oldValue, v, i, n). n - i)") auto

declare identical_loop.simps [simp del]

definition set_lineDash :: "store \<Rightarrow> ref option \<Rightarrow> Shape \<Rightarrow> Shape" where
  "set_lineDash h v s =
     (let oldValue = lineDash s in
      if oldValue \<noteq> v then
        (case (oldValue, v) of
           (Some a, Some b) \<Rightarrow>
             if length (arrays h a) = length (arrays h b)
                \<and> identical_loop (arrays h a) (arrays h b) 0 (length (arrays h b))
             then s
             else s\<lparr>lineDash := v, dirty := True\<rparr>
         | _ \<Rightarrow> s\<lparr>lineDash := v, dirty := True\<rparr>)
      else s)"

definition set_lineDashOffset :: "number \<Rightarrow> Shape \<Rightarrow> Shape" where
  "set_lineDashOffset v s =
     (if \<not> strict_eq (lineDashOffset s) v then s\<lparr>lineDashOffset := v, dirty := True\<rparr> else s)"

definition set_lineCap :: "ShapeLineCap \<Rightarrow> Shape \<Rightarrow> Shape" where
  "set_lineCap v s = (if lineCap s \<noteq> v then s\<lparr>lineCap := v, dirty := True\<rparr> else s)"

definition set_lineJoin :: "ShapeLineJoin \<Rightarrow> Shape \<Rightarrow> Shape" where
  "set_lineJoin v s = (if lineJoin s \<noteq> v then s\<lparr>lineJoin := v, dirty := True\<rparr> else s)"

definition set_opacity :: "number \<Rightarrow> Shape \<Rightarrow> Shape" where
  "set_opacity v0 s =
     (let v = Math_min (Num 1) (Math_max (Num 0) v0) in
      if \<not> strict_eq (opacity s) v then s\<lparr>opacity := v, dirty := True\<rparr> else s)"

definition set_shadow :: "ref option \<Rightarrow> Shape \<Rightarrow> Shape" where
  "set_shadow v s = (if shadow s \<noteq> v then s\<lparr>shadow := v, dirty := True\<rparr> else s)"

subsection \<open>Writing the attributes to the rendering context\<close>

text \<open>The rendering context is a sink: what it receives is the sequence of assignments
  and calls made on it, in order.\<close>

datatype ctx_op =
    Assign_fillStyle string
  | Assign_strokeStyle string
  | Assign_lineWidth number
  | Call_setLineDash "number list"
  | Assign_lineDashOffset number
  | Assign_lineCap ShapeLineCap
  | Assign_lineJoin ShapeLineJoin
  | Assign_globalAlpha number
  | Assign_shadowColor string
  | Assign_shadowOffsetX number
  | Assign_shadowOffsetY number
  | Assign_shadowBlur number

definition stroke_attributes :: "store \<Rightarrow> Shape \<Rightarrow> string \<Rightarrow> ctx_op list" where
  "stroke_attributes h s c =
     [Assign_strokeStyle c, Assign_lineWidth (strokeWidth s)]
     @ (case lineDash s of Some a \<Rightarrow> [Call_setLineDash (arrays h a)] | None \<Rightarrow> [])
     @ (if truthy_number (lineDashOffset s) then [Assign_lineDashOffset (lineDashOffset s)] else [])
     @ (if lineCap s \<noteq> Cap_null then [Assign_lineCap (lineCap s)] else [])
     @ (if lineJoin s \<noteq> Join_null then [Assign_lineJoin (lineJoin s)] else [])"

definition applyContextAttributes :: "store \<Rightarrow> Shape \<Rightarrow> ctx_op list" where
  "applyContextAttributes h s =
     (case fill s of
        Some c \<Rightarrow> if truthy_string (Some c) then [Assign_fillStyle c] else []
      | None \<Rightarrow> [])
     @ (case stroke s of
        Some c \<Rightarrow> if truthy_string (Some c) then stroke_attributes h s c else []
      | None \<Rightarrow> [])
     @ (if less_than (opacity s) (Num 1) then [Assign_globalAlpha (opacity s)] else [])
     @ (case shadow s of
        Some r \<Rightarrow>
          [Assign_shadowColor (color (shadows h r)),
           Assign_shadowOffsetX (offset_x (shadows h r)),
           Assign_shadowOffsetY (offset_y (shadows h r)),
           Assign_shadowBlur (blur (shadows h r))]
      | None \<Rightarrow> [])"

subsection \<open>Hit testing\<close>

text \<open>\<open>isPointInPath\<close> and \<open>isPointInStroke\<close> are abstract: each concrete shape supplies
  them. \<open>isPointInNode\<close> is written over whatever the shape supplies.\<close>

record hit_tests =
  isPointInPath :: "number \<Rightarrow> number \<Rightarrow> bool"
  isPointInStroke :: "number \<Rightarrow> number \<Rightarrow> bool"

definition isPointInNode :: "hit_tests \<Rightarrow> number \<Rightarrow> number \<Rightarrow> bool" where
  "isPointInNode this x y = isPointInPath this x y"

section \<open>Default styles\<close>

text \<open>
  A table of default styles is an object whose properties are style attributes. A property
  is a name with a value of the type the attribute has; \<open>key\<close> is the name alone. The names
  are those of the nine attributes of Shape; a subclass may add names for attributes of its
  own, whose setters are not Shape's.
\<close>

datatype key =
    K_fill | K_stroke | K_strokeWidth | K_lineDash | K_lineDashOffset
  | K_lineCap | K_lineJoin | K_opacity | K_shadow

datatype property =
    P_fill "string option"
  | P_stroke "string option"
  | P_strokeWidth number
  | P_lineDash "ref option"
  | P_lineDashOffset number
  | P_lineCap ShapeLineCap
  | P_lineJoin ShapeLineJoin
  | P_opacity number
  | P_shadow "ref option"

fun key_of :: "property \<Rightarrow> key" where
  "key_of (P_fill v) = K_fill"
| "key_of (P_stroke v) = K_stroke"
| "key_of (P_strokeWidth v) = K_strokeWidth"
| "key_of (P_lineDash v) = K_lineDash"
| "key_of (P_lineDashOffset v) = K_lineDashOffset"
| "key_of (P_lineCap v) = K_lineCap"
| "key_of (P_lineJoin v) = K_lineJoin"
| "key_of (P_opacity v) = K_opacity"
| "key_of (P_shadow v) = K_shadow"

text \<open>\<open>this[key] = value\<close>: the assignment runs the setter of that name.\<close>

fun assign :: "store \<Rightarrow> property \<Rightarrow> Shape \<Rightarrow> Shape" where
  "assign h (P_fill v) s = set_fill v s"
| "assign h (P_stroke v) s = set_stroke v s"
| "assign h (P_strokeWidth v) s = set_strokeWidth v s"
| "assign h (P_lineDash v) s = set_lineDash h v s"
| "assign h (P_lineDashOffset v) s = set_lineDashOffset v s"
| "assign h (P_lineCap v) s = set_lineCap v s"
| "assign h (P_lineJoin v) s = set_lineJoin v s"
| "assign h (P_opacity v) s = set_opacity v s"
| "assign h (P_shadow v) s = set_shadow v s"

text \<open>\<open>this[key]\<close>: the getter of that name.\<close>

fun get_attr :: "Shape \<Rightarrow> key \<Rightarrow> property" where
  "get_attr s K_fill = P_fill (fill s)"
| "get_attr s K_stroke = P_stroke (stroke s)"
| "get_attr s K_strokeWidth = P_strokeWidth (strokeWidth s)"
| "get_attr s K_lineDash = P_lineDash (lineDash s)"
| "get_attr s K_lineDashOffset = P_lineDashOffset (lineDashOffset s)"
| "get_attr s K_lineCap = P_lineCap (lineCap s)"
| "get_attr s K_lineJoin = P_lineJoin (lineJoin s)"
| "get_attr s K_opacity = P_opacity (opacity s)"
| "get_attr s K_shadow = P_shadow (shadow s)"

text \<open>
  An object with its prototype chain is the list of the own-property tables along the
  chain: first the object's own properties (in insertion order, no name twice), then those
  of its prototype, and so on. \<open>Object.prototype\<close> ends every chain; it has no enumerable
  property and no own property with the name of a style, and it is the empty list.
\<close>

type_synonym styles = "property list list"

text \<open>Modelled from the spec: \<open>chainObjects\<close> is not part of the sources. It "registers
  ownDefaults for variant, linked to the defaults table of variant's superclass (or an
  empty table if variant is the root)": a new object whose prototype is \<open>parent\<close> and whose
  own properties are those of \<open>child\<close>.\<close>

definition chainObjects :: "styles \<Rightarrow> property list \<Rightarrow> styles" where
  "chainObjects parent child = child # parent"

text \<open>The object literal \<open>{}\<close>.\<close>

definition empty_object :: styles where
  "empty_object = [[]]"

definition Shape_defaultStyles :: styles where
  "Shape_defaultStyles = chainObjects empty_object
     [P_fill (Some ''black''), P_stroke None, P_strokeWidth (Num 0), P_lineDash None,
      P_lineDashOffset (Num 0), P_lineCap Cap_null, P_lineJoin Join_null,
      P_opacity (Num 1), P_shadow None]"

text \<open>\<open>Object.getOwnPropertyNames(o)\<close>, \<open>o.hasOwnProperty(k)\<close>, \<open>Object.getPrototypeOf(o)\<close>,
  the property read \<open>o[k]\<close> (\<open>None\<close> is \<open>undefined\<close>) and the keys that \<open>for (k in o)\<close>
  visits: the own ones, then the inherited ones that are not shadowed. The prototype of
  \<open>Object.prototype\<close> is \<open>null\<close>; \<open>restoreOverriddenStyles\<close> reads it only inside a loop
  that has no iteration then.\<close>

fun getOwnPropertyNames :: "styles \<Rightarrow> key list" where
  "getOwnPropertyNames [] = []"
| "getOwnPropertyNames (own # proto) = map key_of own"

fun hasOwnProperty :: "styles \<Rightarrow> key \<Rightarrow> bool" where
  "hasOwnProperty [] k = False"
| "hasOwnProperty (own # proto) k = (k \<in> set (map key_of own))"

fun getPrototypeOf :: "styles \<Rightarrow> styles" where
  "getPrototypeOf [] = []"
| "getPrototypeOf (own # proto) = proto"

fun get_prop :: "styles \<Rightarrow> key \<Rightarrow> property option" where
  "get_prop [] k = None"
| "get_prop (own # proto) k =
     (case find (\<lambda>p. key_of p = k) own of
        Some p \<Rightarrow> Some p
      | None \<Rightarrow> get_prop proto k)"

fun for_in :: "styles \<Rightarrow> key list" where
  "for_in [] = []"
| "for_in (own # proto) =
     map key_of own @ filter (\<lambda>k. k \<notin> set (map key_of own)) (for_in proto)"

text \<open>The loop body \<open>this[key] = styles[key]\<close>. Every key the loops visit is a property of
  \<open>styles\<close>, so the read never gives \<open>undefined\<close>.\<close>

definition assign_from :: "store \<Rightarrow> styles \<Rightarrow> key \<Rightarrow> Shape \<Rightarrow> Shape" where
  "assign_from h styles k s =
     (case get_prop styles k of Some p \<Rightarrow> assign h p s | None \<Rightarrow> s)"

text \<open>The three restore methods; \<open>styles\<close> is \<open>this.constructor.defaultStyles\<close>, the table
  of the shape's own class.\<close>

definition restoreOwnStyles :: "store \<Rightarrow> styles \<Rightarrow> Shape \<Rightarrow> Shape" where
  "restoreOwnStyles h styles s =
     (let keys = getOwnPropertyNames styles in fold (assign_from h styles) keys s)"

definition restoreAllStyles :: "store \<Rightarrow> styles \<Rightarrow> Shape \<Rightarrow> Shape" where
  "restoreAllStyles h styles s = fold (assign_from h styles) (for_in styles) s"

definition restoreOverriddenStyles :: "store \<Rightarrow> styles \<Rightarrow> Shape \<Rightarrow> Shape" where
  "restoreOverriddenStyles h styles s =
     (let protoStyles = getPrototypeOf styles in
      fold (\<lambda>property s'.
              if hasOwnProperty styles property \<and> hasOwnProperty protoStyles property
              then assign_from h styles property s'
              else s')
           (for_in styles) s)"

text \<open>A shape as its field initialisers leave it: every field from
  \<open>Shape.defaultStyles\<close>, the flag not armed.\<close>

definition new_Shape :: Shape where
  "new_Shape =
     \<lparr>fill = Some ''black'', stroke = None, strokeWidth = Num 0, lineDash = None,
      lineDashOffset = Num 0, lineCap = Cap_null, lineJoin = Join_null,
      opacity = Num 1, shadow = None, dirty = False\<rparr>"

section \<open>The vocabulary of the specification\<close>

text \<open>
  The equality rule of each attribute, in the words of the specification: identity or
  value equality for the scalar attributes and the shadow reference; for \<open>opacity\<close> the
  input is clamped first and the clamped value is compared; for \<open>lineDash\<close> the same
  value, or two present sequences of equal length whose elements compare equal pairwise.
  Numbers compare with \<open>===\<close>.
\<close>

fun equal_under_rule :: "store \<Rightarrow> Shape \<Rightarrow> property \<Rightarrow> bool" where
  "equal_under_rule h s (P_fill v) = (fill s = v)"
| "equal_under_rule h s (P_stroke v) = (stroke s = v)"
| "equal_under_rule h s (P_strokeWidth v) = strict_eq (strokeWidth s) v"
| "equal_under_rule h s (P_lineDash v) =
     (lineDash s = v \<or>
      (case (lineDash s, v) of
         (Some a, Some b) \<Rightarrow> list_all2 strict_eq (arrays h a) (arrays h b)
       | _ \<Rightarrow> False))"
| "equal_under_rule h s (P_lineDashOffset v) = strict_eq (lineDashOffset s) v"
| "equal_under_rule h s (P_lineCap v) = (lineCap s = v)"
| "equal_under_rule h s (P_lineJoin v) = (lineJoin s = v)"
| "equal_under_rule h s (P_opacity v) =
     strict_eq (opacity s) (Math_min (Num 1) (Math_max (Num 0) v))"
| "equal_under_rule h s (P_shadow v) = (shadow s = v)"

text \<open>The value a setter stores for an input: the input, clamped in the case of
  \<open>opacity\<close>.\<close>

fun stored_for :: "property \<Rightarrow> property" where
  "stored_for (P_opacity v) = P_opacity (Math_min (Num 1) (Math_max (Num 0) v))"
| "stored_for p = p"

text \<open>The value of a property is not \<open>NaN\<close> (only a number can be).\<close>

fun not_NaN :: "property \<Rightarrow> bool" where
  "not_NaN (P_strokeWidth v) = (v \<noteq> NaN)"
| "not_NaN (P_lineDashOffset v) = (v \<noteq> NaN)"
| "not_NaN (P_opacity v) = (v \<noteq> NaN)"
| "not_NaN p = True"

text \<open>A number of the interval [0,1].\<close>

fun in_unit_interval :: "number \<Rightarrow> bool" where
  "in_unit_interval (Num r) = (0 \<le> r \<and> r \<le> 1)"
| "in_unit_interval _ = False"

text \<open>
  A shape's attribute has the value of a default: the same string, number, enum value or
  shadow; for \<open>opacity\<close> the default as the setter clamps it; for \<open>lineDash\<close> the same dash
  pattern, both unset or both sequences with the same elements.
\<close>

fun attribute_is :: "store \<Rightarrow> Shape \<Rightarrow> property \<Rightarrow> bool" where
  "attribute_is h s (P_fill v) = (fill s = v)"
| "attribute_is h s (P_stroke v) = (stroke s = v)"
| "attribute_is h s (P_strokeWidth v) = (strokeWidth s = v)"
| "attribute_is h s (P_lineDash v) =
     (map_option (arrays h) (lineDash s) = map_option (arrays h) v)"
| "attribute_is h s (P_lineDashOffset v) = (lineDashOffset s = v)"
| "attribute_is h s (P_lineCap v) = (lineCap s = v)"
| "attribute_is h s (P_lineJoin v) = (lineJoin s = v)"
| "attribute_is h s (P_opacity v) = (opacity s = Math_min (Num 1) (Math_max (Num 0) v))"
| "attribute_is h s (P_shadow v) = (shadow s = v)"

text \<open>
  The registry of the specification. \<open>ownKeys\<close>: the names a variant declares itself.
  \<open>own_default\<close>: the variant's own default for a name. \<open>isOverride\<close>: the name exists in
  the variant's own table and in some ancestor's table. \<open>parent_declares\<close>: the name exists
  in the own table of the variant's direct parent. \<open>resolve\<close>: the merge of every table
  from the root to the variant, the most derived one winning.
\<close>

fun ownKeys :: "styles \<Rightarrow> key set" where
  "ownKeys [] = {}"
| "ownKeys (own # ancestors) = key_of ` set own"

fun own_default :: "styles \<Rightarrow> key \<Rightarrow> property option" where
  "own_default [] k = None"
| "own_default (own # ancestors) k = find (\<lambda>p. key_of p = k) own"

fun isOverride :: "styles \<Rightarrow> key \<Rightarrow> bool" where
  "isOverride [] k = False"
| "isOverride (own # ancestors) k =
     (k \<in> key_of ` set own \<and> (\<exists>anc \<in> set ancestors. k \<in> key_of ` set anc))"

fun parent_declares :: "styles \<Rightarrow> key \<Rightarrow> bool" where
  "parent_declares (own # parent # ancestors) k = (k \<in> key_of ` set parent)"
| "parent_declares _ k = False"

fun resolve :: "styles \<Rightarrow> key \<Rightarrow> property option" where
  "resolve [] = (\<lambda>k. None)"
| "resolve (own # ancestors) = resolve ancestors ++ (\<lambda>k. find (\<lambda>p. key_of p = k) own)"

text \<open>The assignments that depend on the stroke: line width, dash pattern, dash offset,
  cap and join; and those together with the stroke paint itself.\<close>

fun stroke_dependent :: "ctx_op \<Rightarrow> bool" where
  "stroke_dependent (Assign_lineWidth v) = True"
| "stroke_dependent (Call_setLineDash v) = True"
| "stroke_dependent (Assign_lineDashOffset v) = True"
| "stroke_dependent (Assign_lineCap v) = True"
| "stroke_dependent (Assign_lineJoin v) = True"
| "stroke_dependent _ = False"

fun stroke_related :: "ctx_op \<Rightarrow> bool" where
  "stroke_related (Assign_strokeStyle v) = True"
| "stroke_related c = stroke_dependent c"

fun is_fillStyle :: "ctx_op \<Rightarrow> bool" where
  "is_fillStyle (Assign_fillStyle v) = True"
| "is_fillStyle _ = False"

section \<open>Concrete shapes, arrays and tables\<close>

text \<open>A store with the arrays \<open>[1,2,3]\<close> at addresses 0 and 1, \<open>[1,2,4]\<close> at 2,
  \<open>[NaN]\<close> at 3 and 4, and empty arrays elsewhere.\<close>

definition example_store :: store where
  "example_store =
     \<lparr>arrays = (\<lambda>r. if r = 0 then [Num 1, Num 2, Num 3]
                     else if r = 1 then [Num 1, Num 2, Num 3]
                     else if r = 2 then [Num 1, Num 2, Num 4]
                     else if r = 3 then [NaN]
                     else if r = 4 then [NaN]
                     else []),
      shadows = (\<lambda>r. \<lparr>color = ''rgba(0,0,0,0.5)'', offset_x = Num 0, offset_y = Num 0,
                       blur = Num 5\<rparr>)\<rparr>"

text \<open>A shape with custom styling.\<close>

definition styled_Shape :: Shape where
  "styled_Shape = new_Shape\<lparr>fill := Some ''blue'', strokeWidth := Num 5\<rparr>"

text \<open>A subclass that declares only \<open>{strokeWidth: 2}\<close>; a subclass that redeclares
  \<open>fill\<close>; and a subclass of the first that declares \<open>fill\<close>, which its parent does not
  declare and its grandparent Shape does.\<close>

definition thick_styles :: styles where
  "thick_styles = chainObjects Shape_defaultStyles [P_strokeWidth (Num 2)]"

definition red_styles :: styles where
  "red_styles = chainObjects Shape_defaultStyles [P_fill (Some ''red'')]"

definition thick_red_styles :: styles where
  "thick_red_styles = chainObjects thick_styles [P_fill (Some ''red'')]"

section \<open>The setters\<close>

text \<open>The loop of the \<open>lineDash\<close> setter compares the elements in \<open>[i, n)\<close>.\<close>


lemma identical_loop_iff:
  "n \<le> length a \<Longrightarrow> n \<le> length b \<Longrightarrow>
   identical_loop a b i n = (\<forall>j. i \<le> j \<and> j < n \<longrightarrow> strict_eq (a ! j) (b ! j))"
proof (induction a b i n rule: identical_loop.induct)
  case (1 oldValue v i n)
  show ?case
  proof (cases "i < n")
    case False
    then show ?thesis by (auto simp add: identical_loop.simps [of oldValue v i n])
  next
    case True
    show ?thesis
    proof (cases "strict_eq (oldValue ! i) (v ! i)")
      case False
      with True show ?thesis
        by (auto simp add: identical_loop.simps [of oldValue v i n])
    next
      case eq: True
      have "identical_loop oldValue v i n = identical_loop oldValue v (i + 1) n"
        using True eq by (simp add: identical_loop.simps [of oldValue v i n])
      also have "\<dots> = (\<forall>j. i + 1 \<le> j \<and> j < n \<longrightarrow> strict_eq (oldValue ! j) (v ! j))"
        using "1.IH" True eq "1.prems" by simp
      also have "\<dots> = (\<forall>j. i \<le> j \<and> j < n \<longrightarrow> strict_eq (oldValue ! j) (v ! j))"
      proof (intro iffI allI impI)
        fix j assume a: "\<forall>j. i + 1 \<le> j \<and> j < n \<longrightarrow> strict_eq (oldValue ! j) (v ! j)"
          and j: "i \<le> j \<and> j < n"
        show "strict_eq (oldValue ! j) (v ! j)"
        proof (cases "j = i")
          case True
          with eq show ?thesis by simp
        next
          case False
          with j have "i + 1 \<le> j \<and> j < n" by simp
          with a show ?thesis by blast
        qed
      next
        fix j assume a: "\<forall>j. i \<le> j \<and> j < n \<longrightarrow> strict_eq (oldValue ! j) (v ! j)"
          and j: "i + 1 \<le> j \<and> j < n"
        from j have "i \<le> j \<and> j < n" by simp
        with a show "strict_eq (oldValue ! j) (v ! j)" by blast
      qed
      finally show ?thesis .
    qed
  qed
qed

lemma identical_loop_all2:
  "length a = length b \<Longrightarrow> identical_loop a b 0 (length b) = list_all2 strict_eq a b"
  by (simp add: identical_loop_iff list_all2_conv_all_nth)

lemma set_lineDash_cases:
  "set_lineDash h v s =
     (if lineDash s = v
         \<or> (\<exists>a b. lineDash s = Some a \<and> v = Some b
                  \<and> list_all2 strict_eq (arrays h a) (arrays h b))
      then s
      else s\<lparr>lineDash := v, dirty := True\<rparr>)"
  by (auto simp add: set_lineDash_def Let_def identical_loop_all2 list_all2_lengthD
           split: option.splits)

text \<open>
  C1. The \<open>lineDash\<close> setter leaves the shape as it is (stores nothing, does not arm the
  dirty flag) exactly when the old and the new value are the same value (the same array, or
  both unset), or both are present arrays of equal length whose elements are pairwise
  \<open>===\<close>; in every other case it stores the new value and arms the dirty flag. Elements
  are compared as the language compares numbers, so \<open>NaN\<close> equals nothing: an array with a
  \<open>NaN\<close> is unchanged only against itself.
\<close>

theorem lineDash_setter:
  "set_lineDash h v s =
     (if lineDash s = v
         \<or> (\<exists>a b. lineDash s = Some a \<and> v = Some b
                  \<and> list_all2 strict_eq (arrays h a) (arrays h b))
      then s
      else s\<lparr>lineDash := v, dirty := True\<rparr>)"
  by (rule set_lineDash_cases)

theorem lineDash_setter_witness:
  "set_lineDash example_store (Some 1) (new_Shape\<lparr>lineDash := Some 0\<rparr>)
     = new_Shape\<lparr>lineDash := Some 0\<rparr>
   \<and> set_lineDash example_store (Some 2) (new_Shape\<lparr>lineDash := Some 0\<rparr>)
     = new_Shape\<lparr>lineDash := Some 2, dirty := True\<rparr>
   \<and> set_lineDash example_store None (new_Shape\<lparr>lineDash := Some 0\<rparr>)
     = new_Shape\<lparr>lineDash := None, dirty := True\<rparr>
   \<and> set_lineDash example_store (Some 0) new_Shape
     = new_Shape\<lparr>lineDash := Some 0, dirty := True\<rparr>
   \<and> set_lineDash example_store (Some 3) (new_Shape\<lparr>lineDash := Some 3\<rparr>)
     = new_Shape\<lparr>lineDash := Some 3\<rparr>
   \<and> set_lineDash example_store (Some 4) (new_Shape\<lparr>lineDash := Some 3\<rparr>)
     = new_Shape\<lparr>lineDash := Some 4, dirty := True\<rparr>"
  using lineDash_setter [of example_store "Some 1" "new_Shape\<lparr>lineDash := Some 0\<rparr>"]
    lineDash_setter [of example_store "Some 2" "new_Shape\<lparr>lineDash := Some 0\<rparr>"]
    lineDash_setter [of example_store None "new_Shape\<lparr>lineDash := Some 0\<rparr>"]
    lineDash_setter [of example_store "Some 0" new_Shape]
    lineDash_setter [of example_store "Some 3" "new_Shape\<lparr>lineDash := Some 3\<rparr>"]
    lineDash_setter [of example_store "Some 4" "new_Shape\<lparr>lineDash := Some 3\<rparr>"]
  by (simp add: example_store_def new_Shape_def strict_eq_def)

text \<open>What \<open>Math.min(1, Math.max(0, value))\<close> is for each kind of number.\<close>

lemma clamp_cases:
  "Math_min (Num 1) (Math_max (Num 0) v) =
     (case v of Num r \<Rightarrow> Num (if r < 0 then 0 else if 1 < r then 1 else r)
      | PosInfinity \<Rightarrow> Num 1 | NegInfinity \<Rightarrow> Num 0 | NaN \<Rightarrow> NaN)"
  by (cases v) (auto simp add: Math_min_def Math_max_def)

lemmas setter_defs = set_fill_def set_stroke_def set_strokeWidth_def set_lineDashOffset_def
  set_lineCap_def set_lineJoin_def set_opacity_def set_shadow_def

lemma assign_stores:
  "\<not> equal_under_rule h s p \<Longrightarrow> get_attr (assign h p s) (key_of p) = stored_for p"
  by (cases p)
     (auto simp add: setter_defs Let_def set_lineDash_cases split: option.splits)

lemma assign_arms:
  "\<not> equal_under_rule h s p \<Longrightarrow> dirty (assign h p s)"
  by (cases p)
     (auto simp add: setter_defs Let_def set_lineDash_cases split: option.splits)

lemma assign_other:
  "k \<noteq> key_of p \<Longrightarrow> get_attr (assign h p s) k = get_attr s k"
  by (cases p; cases k)
     (simp_all add: setter_defs Let_def set_lineDash_cases)

lemma assign_twice:
  "assign h p (assign h p s) = assign h p s"
  by (cases p)
     (auto simp add: setter_defs Let_def set_lineDash_cases strict_eq_def)

text \<open>
  C5. For each of the nine attributes and every shape: calling the setter with a value
  that equals the stored value under the attribute's equality rule returns the shape as it
  was: the stored value, the dirty flag and every other attribute are unchanged.
\<close>

theorem same_value_no_effect:
  "equal_under_rule h s p \<Longrightarrow> assign h p s = s"
  by (cases p)
     (auto simp add: setter_defs Let_def set_lineDash_cases split: option.splits)

theorem same_value_no_effect_witness:
  "equal_under_rule example_store (new_Shape\<lparr>lineDash := Some 0\<rparr>) (P_lineDash (Some 1))
   \<and> assign example_store (P_lineDash (Some 1)) (new_Shape\<lparr>lineDash := Some 0\<rparr>)
       = new_Shape\<lparr>lineDash := Some 0\<rparr>
   \<and> equal_under_rule example_store new_Shape (P_opacity (Num (3/2)))
   \<and> assign example_store (P_opacity (Num (3/2))) new_Shape = new_Shape
   \<and> equal_under_rule example_store new_Shape (P_fill (Some ''black''))
   \<and> assign example_store (P_fill (Some ''black'')) new_Shape = new_Shape"
proof -
  have a: "equal_under_rule example_store (new_Shape\<lparr>lineDash := Some 0\<rparr>) (P_lineDash (Some 1))"
    by (simp add: example_store_def strict_eq_def)
  have b: "equal_under_rule example_store new_Shape (P_opacity (Num (3/2)))"
    by (simp add: new_Shape_def strict_eq_def Math_min_def Math_max_def)
  have c: "equal_under_rule example_store new_Shape (P_fill (Some ''black''))"
    by (simp add: new_Shape_def)
  show ?thesis
    using a b c same_value_no_effect [OF a] same_value_no_effect [OF b]
      same_value_no_effect [OF c]
    by simp
qed

text \<open>A setter called with the value the shape holds under the rule does nothing; after
  an assignment of a value that is not \<open>NaN\<close> the shape holds it under the rule, whatever
  the flag is set to afterwards.\<close>

lemma clamp_not_NaN: "v \<noteq> NaN \<Longrightarrow> Math_min (Num 1) (Math_max (Num 0) v) \<noteq> NaN"
  by (cases v) (simp_all add: clamp_cases)

lemma assign_equal_noop: "equal_under_rule h s p \<Longrightarrow> assign h p s = s"
  by (cases p)
     (auto simp add: setter_defs Let_def set_lineDash_cases split: option.splits)

lemma equal_under_rule_dirty:
  "equal_under_rule h (s\<lparr>dirty := d\<rparr>) p = equal_under_rule h s p"
  by (cases p) simp_all

lemma set_lineDash_equal: "equal_under_rule h (set_lineDash h v s) (P_lineDash v)"
proof (cases "equal_under_rule h s (P_lineDash v)")
  case True
  then have "set_lineDash h v s = s" using assign_equal_noop [of h s "P_lineDash v"] by simp
  with True show ?thesis by simp
next
  case False
  then have "set_lineDash h v s = s\<lparr>lineDash := v, dirty := True\<rparr>"
    by (simp add: set_lineDash_cases split: option.splits)
  then show ?thesis by simp
qed

lemma assign_makes_equal: "not_NaN p \<Longrightarrow> equal_under_rule h (assign h p s) p"
proof (cases p)
  case (P_lineDash v)
  then show ?thesis using set_lineDash_equal [of h v s] by simp
next
  case (P_opacity v)
  assume "not_NaN p"
  with P_opacity have "Math_min (Num 1) (Math_max (Num 0) v) \<noteq> NaN"
    by (simp add: clamp_not_NaN)
  with P_opacity show ?thesis by (simp add: set_opacity_def Let_def strict_eq_def)
qed (simp_all add: setter_defs strict_eq_def)

lemma assign_again_any_flag:
  "not_NaN p \<Longrightarrow>
     assign h p ((assign h p s)\<lparr>dirty := d\<rparr>) = (assign h p s)\<lparr>dirty := d\<rparr>"
  by (rule assign_equal_noop) (simp add: equal_under_rule_dirty assign_makes_equal)

lemma assign_again_many:
  "not_NaN p \<Longrightarrow>
     (assign h p ^^ n) ((assign h p s)\<lparr>dirty := d\<rparr>) = (assign h p s)\<lparr>dirty := d\<rparr>"
proof (induction n)
  case 0
  show ?case by simp
next
  case (Suc n)
  have "(assign h p ^^ Suc n) ((assign h p s)\<lparr>dirty := d\<rparr>)
        = assign h p ((assign h p ^^ n) ((assign h p s)\<lparr>dirty := d\<rparr>))"
    by simp
  also have "\<dots> = assign h p ((assign h p s)\<lparr>dirty := d\<rparr>)"
    using Suc by simp
  also have "\<dots> = (assign h p s)\<lparr>dirty := d\<rparr>"
    using Suc.prems by (rule assign_again_any_flag)
  finally show ?case .
qed

text \<open>
  C6 (amended). For each of the nine attributes and every shape: calling the setter with a
  value that differs from the stored value under the attribute's equality rule stores the
  new value (for \<open>opacity\<close>, the clamped input, which is the value its rule compares), sets
  the dirty flag to true and leaves the other attributes as they were. When the value is
  not \<open>NaN\<close>, any number of further assignments of the same value change neither the
  stored value nor the dirty flag, whatever the flag has been set to in between: the flag
  is armed once for the change.
\<close>

theorem new_value_stored_once:
  "\<not> equal_under_rule h s p \<Longrightarrow>
     get_attr (assign h p s) (key_of p) = stored_for p
     \<and> dirty (assign h p s) = True
     \<and> (\<forall>k. k \<noteq> key_of p \<longrightarrow> get_attr (assign h p s) k = get_attr s k)
     \<and> assign h p (assign h p s) = assign h p s
     \<and> (not_NaN p \<longrightarrow>
          (\<forall>d n. (assign h p ^^ n) ((assign h p s)\<lparr>dirty := d\<rparr>)
                   = (assign h p s)\<lparr>dirty := d\<rparr>))"
proof (intro conjI impI allI)
  assume a: "\<not> equal_under_rule h s p"
  show "get_attr (assign h p s) (key_of p) = stored_for p" using a by (rule assign_stores)
  show "dirty (assign h p s) = True" using a by (simp add: assign_arms)
  show "assign h p (assign h p s) = assign h p s" by (rule assign_twice)
next
  fix k assume "k \<noteq> key_of p"
  then show "get_attr (assign h p s) k = get_attr s k" by (rule assign_other)
next
  fix d n assume "not_NaN p"
  then show "(assign h p ^^ n) ((assign h p s)\<lparr>dirty := d\<rparr>) = (assign h p s)\<lparr>dirty := d\<rparr>"
    by (rule assign_again_many)
qed

theorem new_value_stored_once_witness:
  "\<not> equal_under_rule example_store (new_Shape\<lparr>opacity := Num (1/2)\<rparr>) (P_opacity (Num (3/2)))
   \<and> not_NaN (P_opacity (Num (3/2)))
   \<and> assign example_store (P_opacity (Num (3/2))) (new_Shape\<lparr>opacity := Num (1/2)\<rparr>)
       = new_Shape\<lparr>opacity := Num 1, dirty := True\<rparr>
   \<and> assign example_store (P_opacity (Num (3/2))) (new_Shape\<lparr>opacity := Num 1, dirty := False\<rparr>)
       = new_Shape\<lparr>opacity := Num 1, dirty := False\<rparr>
   \<and> assign example_store (P_opacity (Num (3/2)))
        (assign example_store (P_opacity (Num (3/2))) (new_Shape\<lparr>opacity := Num 1, dirty := False\<rparr>))
       = new_Shape\<lparr>opacity := Num 1, dirty := False\<rparr>"
proof -
  let ?p = "P_opacity (Num (3/2))"
  let ?s = "new_Shape\<lparr>opacity := Num (1/2)\<rparr>"
  have a: "\<not> equal_under_rule example_store ?s ?p"
    by (simp add: strict_eq_def Math_min_def Math_max_def)
  have n: "not_NaN ?p" by simp
  have c: "assign example_store ?p ?s = new_Shape\<lparr>opacity := Num 1, dirty := True\<rparr>"
    by (simp add: set_opacity_def new_Shape_def strict_eq_def Math_min_def Math_max_def)
  note t = new_value_stored_once [OF a]
  from t n have r: "\<forall>d n. (assign example_store ?p ^^ n) ((assign example_store ?p ?s)\<lparr>dirty := d\<rparr>)
      = (assign example_store ?p ?s)\<lparr>dirty := d\<rparr>"
    by (rule conjunct2 [THEN conjunct2, THEN conjunct2, THEN conjunct2, THEN mp])
  have u: "(assign example_store ?p ?s)\<lparr>dirty := False\<rparr>
      = new_Shape\<lparr>opacity := Num 1, dirty := False\<rparr>"
    unfolding c by simp
  have 1: "assign example_store ?p (new_Shape\<lparr>opacity := Num 1, dirty := False\<rparr>)
      = new_Shape\<lparr>opacity := Num 1, dirty := False\<rparr>"
    using r [rule_format, of "Suc 0" False] unfolding u by simp
  have 2: "assign example_store ?p (assign example_store ?p (new_Shape\<lparr>opacity := Num 1, dirty := False\<rparr>))
      = new_Shape\<lparr>opacity := Num 1, dirty := False\<rparr>"
    using r [rule_format, of "Suc (Suc 0)" False] unfolding u by simp
  show ?thesis by (intro conjI a n c 1 2)
qed

text \<open>
  C6 as stated, for every value, fails at \<open>NaN\<close>: \<open>NaN !== NaN\<close> holds, so once the flag
  has been cleared, assigning \<open>NaN\<close> to \<open>strokeWidth\<close> again arms it again.
\<close>

theorem NaN_rearms_counterexample:
  "\<not> equal_under_rule example_store new_Shape (P_strokeWidth NaN)
   \<and> assign example_store (P_strokeWidth NaN) new_Shape
       = new_Shape\<lparr>strokeWidth := NaN, dirty := True\<rparr>
   \<and> assign example_store (P_strokeWidth NaN)
        ((assign example_store (P_strokeWidth NaN) new_Shape)\<lparr>dirty := False\<rparr>)
       = new_Shape\<lparr>strokeWidth := NaN, dirty := True\<rparr>
   \<and> assign example_store (P_strokeWidth NaN)
        ((assign example_store (P_strokeWidth NaN) new_Shape)\<lparr>dirty := False\<rparr>)
       \<noteq> (assign example_store (P_strokeWidth NaN) new_Shape)\<lparr>dirty := False\<rparr>"
  by (simp add: set_strokeWidth_def new_Shape_def strict_eq_def)

text \<open>
  C4 (amended). For every shape and every numeric input other than \<open>NaN\<close>, the \<open>opacity\<close>
  setter first clamps the input to [0,1] (a value of the interval is kept, a smaller one
  becomes 0, a larger one 1), then compares and stores the clamped value: when the clamped
  value is the stored one the shape is returned as it was, otherwise the clamped value is
  stored and the dirty flag armed. An input of 1.5 stores 1, an input of -0.2 stores 0.
\<close>

theorem opacity_setter_clamps:
  "v \<noteq> NaN \<Longrightarrow>
     \<exists>c. in_unit_interval c
       \<and> (in_unit_interval v \<longrightarrow> c = v)
       \<and> (less_than v (Num 0) \<longrightarrow> c = Num 0)
       \<and> (less_than (Num 1) v \<longrightarrow> c = Num 1)
       \<and> set_opacity v s = (if opacity s = c then s else s\<lparr>opacity := c, dirty := True\<rparr>)"
proof -
  assume v: "v \<noteq> NaN"
  let ?c = "Math_min (Num 1) (Math_max (Num 0) v)"
  have 1: "in_unit_interval ?c" using v by (cases v) (auto simp add: clamp_cases)
  have 2: "in_unit_interval v \<longrightarrow> ?c = v" by (cases v) (auto simp add: clamp_cases)
  have 3: "less_than v (Num 0) \<longrightarrow> ?c = Num 0" by (cases v) (auto simp add: clamp_cases)
  have 4: "less_than (Num 1) v \<longrightarrow> ?c = Num 1" by (cases v) (auto simp add: clamp_cases)
  have nn: "?c \<noteq> NaN" using 1 by auto
  have 5: "set_opacity v s = (if opacity s = ?c then s else s\<lparr>opacity := ?c, dirty := True\<rparr>)"
    using nn by (auto simp add: set_opacity_def Let_def strict_eq_def)
  from 1 2 3 4 5 show ?thesis by blast
qed

theorem opacity_setter_clamps_witness:
  "Num (3/2) \<noteq> NaN \<and> Num (- (1/5)) \<noteq> NaN
   \<and> set_opacity (Num (3/2)) (new_Shape\<lparr>opacity := Num (1/2)\<rparr>)
       = new_Shape\<lparr>opacity := Num 1, dirty := True\<rparr>
   \<and> set_opacity (Num 1) (new_Shape\<lparr>opacity := Num 1, dirty := False\<rparr>)
       = new_Shape\<lparr>opacity := Num 1, dirty := False\<rparr>
   \<and> set_opacity (Num (3/2)) (new_Shape\<lparr>opacity := Num 1, dirty := False\<rparr>)
       = new_Shape\<lparr>opacity := Num 1, dirty := False\<rparr>
   \<and> set_opacity (Num (- (1/5))) new_Shape = new_Shape\<lparr>opacity := Num 0, dirty := True\<rparr>"
  using opacity_setter_clamps [of "Num (3/2)" "new_Shape\<lparr>opacity := Num (1/2)\<rparr>"]
    opacity_setter_clamps [of "Num 1" "new_Shape\<lparr>opacity := Num 1, dirty := False\<rparr>"]
    opacity_setter_clamps [of "Num (3/2)" "new_Shape\<lparr>opacity := Num 1, dirty := False\<rparr>"]
    opacity_setter_clamps [of "Num (- (1/5))" new_Shape]
  by (auto simp add: new_Shape_def)

text \<open>
  C4 as stated, for every numeric input, fails at \<open>NaN\<close>: \<open>Math.max(0, NaN)\<close> and
  \<open>Math.min(1, NaN)\<close> are \<open>NaN\<close>, so the setter stores \<open>NaN\<close>, which is no value of [0,1].
\<close>

theorem opacity_NaN_counterexample:
  "\<not> in_unit_interval (opacity (set_opacity NaN new_Shape))
   \<and> set_opacity NaN new_Shape = new_Shape\<lparr>opacity := NaN, dirty := True\<rparr>"
  by (simp add: set_opacity_def new_Shape_def strict_eq_def Math_min_def Math_max_def)



section \<open>Writing to the rendering context\<close>

lemma stroke_attributes_head:
  "Assign_strokeStyle c \<in> set (stroke_attributes h s c)
   \<and> Assign_lineWidth (strokeWidth s) \<in> set (stroke_attributes h s c)"
  by (simp add: stroke_attributes_def)

lemma no_stroke_no_stroke_ops:
  "\<not> truthy_string (stroke s) \<Longrightarrow> op \<in> set (applyContextAttributes h s) \<Longrightarrow> \<not> stroke_related op"
  by (cases "stroke s"; cases "fill s"; cases "shadow s")
     (auto simp add: applyContextAttributes_def split: if_splits)

lemma stroke_ops_received:
  "stroke s = Some c \<Longrightarrow> c \<noteq> [] \<Longrightarrow>
     Assign_strokeStyle c \<in> set (applyContextAttributes h s)
     \<and> Assign_lineWidth (strokeWidth s) \<in> set (applyContextAttributes h s)"
  by (simp add: applyContextAttributes_def stroke_attributes_head)

text \<open>
  C3 (amended). If \<open>stroke\<close> is unset, the sink receives no line width, dash pattern, dash
  offset, cap or join, whatever \<open>strokeWidth\<close> is. If \<open>stroke\<close> is set to a non-empty
  string, the sink receives the stroke paint and the current \<open>strokeWidth\<close>, also when
  that is zero.
\<close>

theorem stroke_attributes_only_with_stroke:
  "(stroke s = None \<longrightarrow> (\<forall>op \<in> set (applyContextAttributes h s). \<not> stroke_dependent op))
   \<and> (\<forall>c. stroke s = Some c \<and> c \<noteq> [] \<longrightarrow>
         Assign_strokeStyle c \<in> set (applyContextAttributes h s)
         \<and> Assign_lineWidth (strokeWidth s) \<in> set (applyContextAttributes h s))"
proof (intro conjI impI allI ballI)
  fix op assume "stroke s = None" and m: "op \<in> set (applyContextAttributes h s)"
  then have "\<not> stroke_related op" using no_stroke_no_stroke_ops [of s op h] by simp
  then show "\<not> stroke_dependent op" by (cases op) simp_all
next
  fix c assume "stroke s = Some c \<and> c \<noteq> []"
  then show "Assign_strokeStyle c \<in> set (applyContextAttributes h s)"
    using stroke_ops_received by blast
next
  fix c assume "stroke s = Some c \<and> c \<noteq> []"
  then show "Assign_lineWidth (strokeWidth s) \<in> set (applyContextAttributes h s)"
    using stroke_ops_received by blast
qed

theorem stroke_attributes_only_with_stroke_witness:
  "stroke (new_Shape\<lparr>strokeWidth := Num 5\<rparr>) = None
   \<and> Assign_lineWidth (Num 5) \<notin> set (applyContextAttributes example_store (new_Shape\<lparr>strokeWidth := Num 5\<rparr>))
   \<and> stroke (new_Shape\<lparr>stroke := Some ''red''\<rparr>) = Some ''red'' \<and> ''red'' \<noteq> []
   \<and> Assign_strokeStyle ''red'' \<in> set (applyContextAttributes example_store (new_Shape\<lparr>stroke := Some ''red''\<rparr>))
   \<and> Assign_lineWidth (Num 0) \<in> set (applyContextAttributes example_store (new_Shape\<lparr>stroke := Some ''red''\<rparr>))"
proof -
  have a: "stroke (new_Shape\<lparr>strokeWidth := Num 5\<rparr>) = None" by (simp add: new_Shape_def)
  have b: "stroke (new_Shape\<lparr>stroke := Some ''red''\<rparr>) = Some ''red'' \<and> ''red'' \<noteq> []" by simp
  have w: "strokeWidth (new_Shape\<lparr>stroke := Some ''red''\<rparr>) = Num 0" by (simp add: new_Shape_def)
  have d: "stroke_dependent (Assign_lineWidth (Num 5))" by simp
  show ?thesis
    using a b w d
      stroke_attributes_only_with_stroke [of "new_Shape\<lparr>strokeWidth := Num 5\<rparr>" example_store]
      stroke_attributes_only_with_stroke [of "new_Shape\<lparr>stroke := Some ''red''\<rparr>" example_store]
    by (metis)
qed

text \<open>
  C3 as stated fails for a stroke that is set to the empty string: \<open>if (this.stroke)\<close> is
  false for it, and the sink receives neither the stroke paint nor the line width.
\<close>

theorem empty_stroke_counterexample:
  "stroke (new_Shape\<lparr>stroke := Some ''''\<rparr>) \<noteq> None
   \<and> Assign_strokeStyle '''' \<notin> set (applyContextAttributes example_store (new_Shape\<lparr>stroke := Some ''''\<rparr>))
   \<and> Assign_lineWidth (strokeWidth (new_Shape\<lparr>stroke := Some ''''\<rparr>))
        \<notin> set (applyContextAttributes example_store (new_Shape\<lparr>stroke := Some ''''\<rparr>))
   \<and> applyContextAttributes example_store (new_Shape\<lparr>stroke := Some ''''\<rparr>) = [Assign_fillStyle ''black'']"
  by (simp add: applyContextAttributes_def new_Shape_def)

text \<open>
  C10. A paint that is the empty string is written like an unset paint: the sink receives
  the same sequence as for the unset paint; with \<open>fill\<close> empty it receives no interior
  paint, with \<open>stroke\<close> empty none of stroke paint, line width, dash pattern, dash offset,
  cap and join.
\<close>

theorem empty_paint_like_unset:
  "applyContextAttributes h (s\<lparr>fill := Some ''''\<rparr>) = applyContextAttributes h (s\<lparr>fill := None\<rparr>)
   \<and> applyContextAttributes h (s\<lparr>stroke := Some ''''\<rparr>) = applyContextAttributes h (s\<lparr>stroke := None\<rparr>)
   \<and> (fill s = Some '''' \<longrightarrow> (\<forall>op \<in> set (applyContextAttributes h s). \<not> is_fillStyle op))
   \<and> (stroke s = Some '''' \<longrightarrow> (\<forall>op \<in> set (applyContextAttributes h s). \<not> stroke_related op))"
proof (intro conjI impI ballI)
  show "applyContextAttributes h (s\<lparr>fill := Some ''''\<rparr>) = applyContextAttributes h (s\<lparr>fill := None\<rparr>)"
    by (simp add: applyContextAttributes_def stroke_attributes_def split: option.splits)
  show "applyContextAttributes h (s\<lparr>stroke := Some ''''\<rparr>) = applyContextAttributes h (s\<lparr>stroke := None\<rparr>)"
    by (simp add: applyContextAttributes_def)
next
  fix op assume "fill s = Some ''''" and "op \<in> set (applyContextAttributes h s)"
  then show "\<not> is_fillStyle op"
    by (cases "stroke s"; cases "shadow s")
       (auto simp add: applyContextAttributes_def stroke_attributes_def split: if_splits option.splits)
next
  fix op assume "stroke s = Some ''''" and "op \<in> set (applyContextAttributes h s)"
  then show "\<not> stroke_related op"
    using no_stroke_no_stroke_ops [of s op h] by simp
qed

theorem empty_paint_like_unset_witness:
  "fill (new_Shape\<lparr>fill := Some '''', stroke := Some '''', strokeWidth := Num 5\<rparr>) = Some ''''
   \<and> stroke (new_Shape\<lparr>fill := Some '''', stroke := Some '''', strokeWidth := Num 5\<rparr>) = Some ''''
   \<and> Assign_fillStyle '''' \<notin> set (applyContextAttributes example_store
          (new_Shape\<lparr>fill := Some '''', stroke := Some '''', strokeWidth := Num 5\<rparr>))
   \<and> Assign_strokeStyle '''' \<notin> set (applyContextAttributes example_store
          (new_Shape\<lparr>fill := Some '''', stroke := Some '''', strokeWidth := Num 5\<rparr>))
   \<and> Assign_lineWidth (Num 5) \<notin> set (applyContextAttributes example_store
          (new_Shape\<lparr>fill := Some '''', stroke := Some '''', strokeWidth := Num 5\<rparr>))"
proof -
  let ?s = "new_Shape\<lparr>fill := Some '''', stroke := Some '''', strokeWidth := Num 5\<rparr>"
  note t = empty_paint_like_unset [of example_store ?s]
  have f: "fill ?s = Some ''''" and k: "stroke ?s = Some ''''" by simp_all
  from t f have 1: "\<forall>op \<in> set (applyContextAttributes example_store ?s). \<not> is_fillStyle op"
    by blast
  from t k have 2: "\<forall>op \<in> set (applyContextAttributes example_store ?s). \<not> stroke_related op"
    by blast
  have "is_fillStyle (Assign_fillStyle '''')" and "stroke_related (Assign_strokeStyle '''')"
    and "stroke_related (Assign_lineWidth (Num 5))"
    by simp_all
  with 1 2 f k show ?thesis by blast
qed

section \<open>Hit testing\<close>

text \<open>
  C9. For every shape and every pair of coordinates, \<open>isPointInNode\<close> returns what the
  shape's fill hit-test \<open>isPointInPath\<close> returns for the same coordinates.
\<close>

theorem point_in_node_is_fill_test:
  "isPointInNode this x y = isPointInPath this x y"
  by (simp add: isPointInNode_def)



section \<open>Restoring default styles\<close>

text \<open>After an assignment the attribute has the assigned value, and an assignment to
  another attribute keeps that.\<close>

lemma strict_eq_all2_eq: "list_all2 strict_eq a b \<Longrightarrow> a = b"
proof -
  assume "list_all2 strict_eq a b"
  then have "list_all2 (=) a b"
    by (rule list_all2_mono) (simp add: strict_eq_def)
  then show "a = b" by (simp add: list_all2_eq)
qed

lemma assign_attribute_is: "attribute_is h (assign h p s) p"
  by (cases p)
     (auto simp add: setter_defs Let_def set_lineDash_cases strict_eq_def
           dest: strict_eq_all2_eq)

lemma attribute_is_opacity:
  "in_unit_interval v \<Longrightarrow> attribute_is h s (P_opacity v) = (opacity s = v)"
  by (cases v) (auto simp add: clamp_cases)

lemma attribute_is_cong:
  "get_attr s' (key_of q) = get_attr s (key_of q) \<Longrightarrow> attribute_is h s' q = attribute_is h s q"
  by (cases q) simp_all

lemma assign_keeps_attribute_is:
  "key_of p \<noteq> key_of q \<Longrightarrow> attribute_is h s q \<Longrightarrow> attribute_is h (assign h p s) q"
  using assign_other [of "key_of q" p h s] attribute_is_cong [of "assign h p s" q s h]
  by simp

text \<open>A loop that assigns, for each key of a list, the property a table \<open>g\<close> gives for it.\<close>

lemma fold_assign_other:
  assumes g: "\<And>k p. g k = Some p \<Longrightarrow> key_of p = k"
    and k: "k \<notin> set ks \<or> g k = None"
  shows "get_attr (fold (\<lambda>k s. case g k of Some p \<Rightarrow> assign h p s | None \<Rightarrow> s) ks s) k
         = get_attr s k"
  using k
proof (induction ks arbitrary: s)
  case Nil
  show ?case by simp
next
  case (Cons x xs)
  have step: "get_attr (case g x of Some p \<Rightarrow> assign h p s | None \<Rightarrow> s) k = get_attr s k"
  proof (cases "g x")
    case None
    then show ?thesis by simp
  next
    case (Some p)
    with g have "key_of p = x" by simp
    moreover from Cons.prems Some have "x \<noteq> k" by auto
    ultimately show ?thesis using Some by (simp add: assign_other)
  qed
  from Cons.prems have "k \<notin> set xs \<or> g k = None" by auto
  then show ?case using Cons.IH step by simp
qed

lemma fold_assign_attribute_is:
  assumes g: "\<And>k p. g k = Some p \<Longrightarrow> key_of p = k"
    and k: "k \<in> set ks" and p: "g k = Some p"
  shows "attribute_is h (fold (\<lambda>k s. case g k of Some p \<Rightarrow> assign h p s | None \<Rightarrow> s) ks s) p"
  using k
proof (induction ks arbitrary: s rule: rev_induct)
  case Nil
  then show ?case by simp
next
  case (snoc x xs)
  let ?s = "fold (\<lambda>k s. case g k of Some p \<Rightarrow> assign h p s | None \<Rightarrow> s) xs s"
  show ?case
  proof (cases "x = k")
    case True
    with p show ?thesis by (simp add: assign_attribute_is)
  next
    case False
    with snoc.prems have "k \<in> set xs" by simp
    then have ih: "attribute_is h ?s p" by (rule snoc.IH)
    from g p have kp: "key_of p = k" by simp
    show ?thesis
    proof (cases "g x")
      case None
      with ih show ?thesis by simp
    next
      case (Some q)
      with g have "key_of q = x" by simp
      with False kp have "key_of q \<noteq> key_of p" by simp
      with ih Some show ?thesis by (simp add: assign_keeps_attribute_is)
    qed
  qed
qed

text \<open>The property read along the prototype chain is the resolved table of the
  specification, and \<open>for ... in\<close> visits exactly its names.\<close>

lemma find_key: "find (\<lambda>p. key_of p = k) own = Some p \<Longrightarrow> key_of p = k"
  by (auto simp add: find_Some_iff)

lemma find_None_key: "(find (\<lambda>p. key_of p = k) own = None) = (k \<notin> key_of ` set own)"
  by (auto simp add: find_None_iff)

lemma get_prop_key: "get_prop styles k = Some p \<Longrightarrow> key_of p = k"
  by (induction styles) (auto split: option.splits dest: find_key)

lemma get_prop_resolve: "get_prop styles k = resolve styles k"
  by (induction styles) (auto simp add: map_add_def split: option.splits)

lemma find_absent: "k \<notin> key_of ` set own \<Longrightarrow> find (\<lambda>p. key_of p = k) own = None"
  by (simp add: find_None_key)

lemma for_in_keys: "(k \<in> set (for_in styles)) = (get_prop styles k \<noteq> None)"
proof (induction styles)
  case Nil
  show ?case by simp
next
  case (Cons own proto)
  show ?case
  proof (cases "k \<in> key_of ` set own")
    case True
    then have "find (\<lambda>p. key_of p = k) own \<noteq> None" by (simp add: find_None_key)
    with True show ?thesis by auto
  next
    case False
    then have "find (\<lambda>p. key_of p = k) own = None" by (rule find_absent)
    with False Cons.IH show ?thesis by simp
  qed
qed

lemma get_prop_own:
  "k \<in> ownKeys styles \<Longrightarrow> get_prop styles k = own_default styles k \<and> own_default styles k \<noteq> None"
  by (cases styles) (auto simp add: find_None_key split: option.splits)

lemma own_names: "set (getOwnPropertyNames styles) = ownKeys styles"
  by (cases styles) simp_all

lemma hasOwn_ownKeys: "hasOwnProperty styles k = (k \<in> ownKeys styles)"
  by (cases styles) simp_all

lemma hasOwn_parent: "hasOwnProperty (getPrototypeOf styles) k = parent_declares styles k"
proof (cases styles)
  case Nil
  then show ?thesis by simp
next
  case (Cons own rest)
  then show ?thesis by (cases rest) simp_all
qed

text \<open>Each restore method is such a loop of assignments.\<close>

lemma restoreOwnStyles_fold:
  "restoreOwnStyles h styles s =
     fold (\<lambda>k s. case get_prop styles k of Some p \<Rightarrow> assign h p s | None \<Rightarrow> s)
       (getOwnPropertyNames styles) s"
  by (simp add: restoreOwnStyles_def assign_from_def [abs_def])

lemma restoreAllStyles_fold:
  "restoreAllStyles h styles s =
     fold (\<lambda>k s. case get_prop styles k of Some p \<Rightarrow> assign h p s | None \<Rightarrow> s)
       (for_in styles) s"
  by (simp add: restoreAllStyles_def assign_from_def [abs_def])

lemma restoreOverriddenStyles_fold:
  "restoreOverriddenStyles h styles s =
     fold (\<lambda>k s. case (if k \<in> ownKeys styles \<and> parent_declares styles k
                         then get_prop styles k else None)
                  of Some p \<Rightarrow> assign h p s | None \<Rightarrow> s)
       (for_in styles) s"
proof -
  have "(\<lambda>property s'.
           if hasOwnProperty styles property \<and> hasOwnProperty (getPrototypeOf styles) property
           then assign_from h styles property s' else s')
        = (\<lambda>k s. case (if k \<in> ownKeys styles \<and> parent_declares styles k
                         then get_prop styles k else None)
                  of Some p \<Rightarrow> assign h p s | None \<Rightarrow> s)"
    unfolding hasOwn_parent by (auto simp add: fun_eq_iff assign_from_def hasOwn_ownKeys)
  then show ?thesis by (simp add: restoreOverriddenStyles_def Let_def)
qed


text \<open>
  C7. \<open>restoreOwnStyles\<close> assigns exactly the attributes whose names the variant's own
  table declares, each with that table's default: afterwards every such attribute has its
  own default's value (as the attribute's setter stores it), and every attribute that the
  table does not declare itself, inherited or not, is as it was. On a subclass that
  declares only \<open>{strokeWidth: 2}\<close>, \<open>fill\<close> is untouched and \<open>strokeWidth\<close> becomes 2.
\<close>

theorem restoreOwnStyles_sets_own:
  "(\<forall>k \<in> ownKeys styles.
      \<exists>p. own_default styles k = Some p \<and> attribute_is h (restoreOwnStyles h styles s) p)
   \<and> (\<forall>k. k \<notin> ownKeys styles \<longrightarrow>
          get_attr (restoreOwnStyles h styles s) k = get_attr s k)"
proof (intro conjI ballI allI impI)
  fix k assume k: "k \<in> ownKeys styles"
  then obtain p where p: "own_default styles k = Some p" and g: "get_prop styles k = Some p"
    using get_prop_own [of k styles] by auto
  from k have "k \<in> set (getOwnPropertyNames styles)" by (simp add: own_names)
  then have "attribute_is h (restoreOwnStyles h styles s) p"
    unfolding restoreOwnStyles_fold
    using g by (intro fold_assign_attribute_is) (auto dest: get_prop_key)
  with p show "\<exists>p. own_default styles k = Some p \<and> attribute_is h (restoreOwnStyles h styles s) p"
    by simp
next
  fix k assume "k \<notin> ownKeys styles"
  then have "k \<notin> set (getOwnPropertyNames styles)" by (simp add: own_names)
  then show "get_attr (restoreOwnStyles h styles s) k = get_attr s k"
    unfolding restoreOwnStyles_fold
    by (intro fold_assign_other) (auto dest: get_prop_key)
qed

text \<open>
  C8. \<open>restoreAllStyles\<close> assigns every attribute named in the variant's resolved table
  (own declarations and inherited ones, the most derived winning) its resolved default:
  afterwards each has that default's value (as the attribute's setter stores it), and an
  attribute without a resolved default is as it was. On the subclass that declares only
  \<open>{strokeWidth: 2}\<close>, \<open>fill\<close> becomes the ancestor's default and \<open>strokeWidth\<close> becomes 2.
\<close>

theorem restoreAllStyles_sets_resolved:
  "(\<forall>k p. resolve styles k = Some p \<longrightarrow> attribute_is h (restoreAllStyles h styles s) p)
   \<and> (\<forall>k. resolve styles k = None \<longrightarrow>
          get_attr (restoreAllStyles h styles s) k = get_attr s k)"
proof (intro conjI allI impI)
  fix k p assume "resolve styles k = Some p"
  then have g: "get_prop styles k = Some p" by (simp add: get_prop_resolve)
  then have "k \<in> set (for_in styles)" by (simp add: for_in_keys)
  then show "attribute_is h (restoreAllStyles h styles s) p"
    unfolding restoreAllStyles_fold
    using g by (intro fold_assign_attribute_is) (auto dest: get_prop_key)
next
  fix k assume "resolve styles k = None"
  then have "get_prop styles k = None" by (simp add: get_prop_resolve)
  then show "get_attr (restoreAllStyles h styles s) k = get_attr s k"
    unfolding restoreAllStyles_fold
    by (intro fold_assign_other) (auto dest: get_prop_key)
qed

text \<open>
  C2 (amended). \<open>restoreOverriddenStyles\<close> assigns, for every name that the variant's own
  table declares and the own table of its direct parent declares as well, the variant's
  own default: afterwards the attribute has that default's value (as the attribute's
  setter stores it); every other attribute is as it was.
\<close>

theorem restoreOverriddenStyles_sets_redeclared:
  "(\<forall>k. k \<in> ownKeys styles \<and> parent_declares styles k \<longrightarrow>
      (\<exists>p. own_default styles k = Some p
         \<and> attribute_is h (restoreOverriddenStyles h styles s) p))
   \<and> (\<forall>k. \<not> (k \<in> ownKeys styles \<and> parent_declares styles k) \<longrightarrow>
          get_attr (restoreOverriddenStyles h styles s) k = get_attr s k)"
proof (intro conjI allI impI)
  fix k assume k: "k \<in> ownKeys styles \<and> parent_declares styles k"
  then obtain p where p: "own_default styles k = Some p" and g: "get_prop styles k = Some p"
    using get_prop_own [of k styles] by auto
  from g have "k \<in> set (for_in styles)" by (simp add: for_in_keys)
  then have "attribute_is h (restoreOverriddenStyles h styles s) p"
    unfolding restoreOverriddenStyles_fold
    using g k by (intro fold_assign_attribute_is) (auto dest: get_prop_key split: if_splits)
  with p show "\<exists>p. own_default styles k = Some p
                 \<and> attribute_is h (restoreOverriddenStyles h styles s) p"
    by simp
next
  fix k assume "\<not> (k \<in> ownKeys styles \<and> parent_declares styles k)"
  then show "get_attr (restoreOverriddenStyles h styles s) k = get_attr s k"
    unfolding restoreOverriddenStyles_fold
    by (intro fold_assign_other) (auto dest: get_prop_key split: if_splits)
qed


lemmas table_defs = thick_styles_def red_styles_def thick_red_styles_def
  Shape_defaultStyles_def chainObjects_def empty_object_def

theorem restoreOwnStyles_sets_own_witness:
  "K_strokeWidth \<in> ownKeys thick_styles \<and> K_fill \<notin> ownKeys thick_styles
   \<and> strokeWidth (restoreOwnStyles example_store thick_styles styled_Shape) = Num 2
   \<and> fill (restoreOwnStyles example_store thick_styles styled_Shape) = Some ''blue''"
proof -
  note t = restoreOwnStyles_sets_own [of thick_styles example_store styled_Shape]
  have own: "ownKeys thick_styles = {K_strokeWidth}" by (simp add: table_defs)
  have d: "own_default thick_styles K_strokeWidth = Some (P_strokeWidth (Num 2))"
    by (simp add: table_defs)
  from t own d have 1: "strokeWidth (restoreOwnStyles example_store thick_styles styled_Shape) = Num 2"
    by simp
  have nk: "K_fill \<notin> ownKeys thick_styles" using own by simp
  from t nk have "get_attr (restoreOwnStyles example_store thick_styles styled_Shape) K_fill
      = get_attr styled_Shape K_fill"
    by blast
  then have 2: "fill (restoreOwnStyles example_store thick_styles styled_Shape) = Some ''blue''"
    by (simp add: styled_Shape_def)
  from own 1 2 show ?thesis by simp
qed

theorem restoreAllStyles_sets_resolved_witness:
  "resolve thick_styles K_fill = Some (P_fill (Some ''black''))
   \<and> resolve thick_styles K_strokeWidth = Some (P_strokeWidth (Num 2))
   \<and> fill styled_Shape = Some ''blue'' \<and> strokeWidth styled_Shape = Num 5
   \<and> fill (restoreAllStyles example_store thick_styles styled_Shape) = Some ''black''
   \<and> strokeWidth (restoreAllStyles example_store thick_styles styled_Shape) = Num 2"
proof -
  note t = restoreAllStyles_sets_resolved [of thick_styles example_store styled_Shape]
  have a: "resolve thick_styles K_fill = Some (P_fill (Some ''black''))"
    by (simp add: table_defs map_add_def)
  have b: "resolve thick_styles K_strokeWidth = Some (P_strokeWidth (Num 2))"
    by (simp add: table_defs map_add_def)
  from t a have 1: "attribute_is example_store
      (restoreAllStyles example_store thick_styles styled_Shape) (P_fill (Some ''black''))"
    by blast
  from t b have 2: "attribute_is example_store
      (restoreAllStyles example_store thick_styles styled_Shape) (P_strokeWidth (Num 2))"
    by blast
  from a b 1 2 show ?thesis by (simp add: styled_Shape_def)
qed

theorem restoreOverriddenStyles_sets_redeclared_witness:
  "K_fill \<in> ownKeys red_styles \<and> parent_declares red_styles K_fill
   \<and> \<not> (K_strokeWidth \<in> ownKeys red_styles \<and> parent_declares red_styles K_strokeWidth)
   \<and> fill (restoreOverriddenStyles example_store red_styles styled_Shape) = Some ''red''
   \<and> strokeWidth (restoreOverriddenStyles example_store red_styles styled_Shape) = Num 5"
proof -
  note t = restoreOverriddenStyles_sets_redeclared [of red_styles example_store styled_Shape]
  have a: "K_fill \<in> ownKeys red_styles \<and> parent_declares red_styles K_fill"
    by (simp add: table_defs)
  have b: "\<not> (K_strokeWidth \<in> ownKeys red_styles \<and> parent_declares red_styles K_strokeWidth)"
    by (simp add: table_defs)
  have d: "own_default red_styles K_fill = Some (P_fill (Some ''red''))"
    by (simp add: table_defs)
  from t a obtain p where "own_default red_styles K_fill = Some p"
    and "attribute_is example_store (restoreOverriddenStyles example_store red_styles styled_Shape) p"
    by blast
  with d have 1: "fill (restoreOverriddenStyles example_store red_styles styled_Shape) = Some ''red''"
    by auto
  from t b have "get_attr (restoreOverriddenStyles example_store red_styles styled_Shape) K_strokeWidth
      = get_attr styled_Shape K_strokeWidth"
    by blast
  then have 2: "strokeWidth (restoreOverriddenStyles example_store red_styles styled_Shape) = Num 5"
    by (simp add: styled_Shape_def)
  from a b 1 2 show ?thesis by simp
qed

text \<open>
  C2 as stated, with a default that some ancestor declared, fails when the ancestor is not
  the direct parent: the variant declares \<open>fill: red\<close>, its parent declares only
  \<open>strokeWidth\<close>, its grandparent Shape declares \<open>fill\<close>. \<open>isOverride\<close> holds for \<open>fill\<close>,
  and \<open>restoreOverriddenStyles\<close> leaves the shape's \<open>fill\<close> as it was, since
  \<open>protoStyles.hasOwnProperty\<close> looks at the parent's own properties only.
\<close>

theorem grandparent_default_counterexample:
  "isOverride thick_red_styles K_fill
   \<and> own_default thick_red_styles K_fill = Some (P_fill (Some ''red''))
   \<and> fill styled_Shape = Some ''blue''
   \<and> fill (restoreOverriddenStyles example_store thick_red_styles styled_Shape) = Some ''blue''
   \<and> restoreOverriddenStyles example_store thick_red_styles styled_Shape = styled_Shape"
  by (simp add: table_defs restoreOverriddenStyles_def styled_Shape_def)

end
